theory Spec2Isabelle
  imports Main "HOL-Library.AList"
begin

section \<open>JavaScript values\<close>

text \<open>
  The agent step (\<^verbatim>\<open>packages/server/src/automations/steps/ai/agent.ts\<close>) probes message
  parts of unknown shape with \<^verbatim>\<open>typeof\<close>, \<^verbatim>\<open>in\<close> and truthiness tests, and it catches
  thrown values of any type (\<^verbatim>\<open>catch (err: any)\<close>). Both are untyped JavaScript values
  here. An object is the association list of its own properties.
\<close>

datatype jsval =
    JUndefined
  | JNull
  | JBool bool
  | JNum int
  | JStr string
  | JArr "jsval list"
  | JObj "(string \<times> jsval) list"

text \<open>Truthiness of a value, as \<^verbatim>\<open>part && ...\<close> uses it.\<close>

fun truthy :: "jsval \<Rightarrow> bool" where
  "truthy JUndefined = False"
| "truthy JNull = False"
| "truthy (JBool b) = b"
| "truthy (JNum n) = (n \<noteq> 0)"
| "truthy (JStr s) = (s \<noteq> [])"
| "truthy (JArr _) = True"
| "truthy (JObj _) = True"

text \<open>
  Truthiness of a \<^verbatim>\<open>string | undefined\<close>: \<^verbatim>\<open>undefined\<close> and the empty string are falsy.
  This is \<^verbatim>\<open>!agentId\<close>, \<^verbatim>\<open>!prompt\<close>, \<^verbatim>\<open>appId && ...\<close>, \<^verbatim>\<open>!toolName\<close> and
  \<^verbatim>\<open>modelId || modelName || baseUrl\<close>.
\<close>

fun truthy_str :: "string option \<Rightarrow> bool" where
  "truthy_str None = False"
| "truthy_str (Some s) = (s \<noteq> [])"

text \<open>\<^verbatim>\<open>typeof v === "object"\<close> holds of objects, arrays and \<^verbatim>\<open>null\<close>.\<close>

fun typeof_object :: "jsval \<Rightarrow> bool" where
  "typeof_object JNull = True"
| "typeof_object (JArr _) = True"
| "typeof_object (JObj _) = True"
| "typeof_object _ = False"

text \<open>
  \<^verbatim>\<open>k in v\<close> and \<^verbatim>\<open>v.k\<close>, for a value \<open>v\<close> that passed the \<^verbatim>\<open>typeof\<close> test. An array
  has no property called \<^verbatim>\<open>type\<close> or \<^verbatim>\<open>toolName\<close>.
\<close>

fun has_prop :: "string \<Rightarrow> jsval \<Rightarrow> bool" where
  "has_prop k (JObj fs) = (map_of fs k \<noteq> None)"
| "has_prop k _ = False"

fun get_prop :: "jsval \<Rightarrow> string \<Rightarrow> jsval" where
  "get_prop (JObj fs) k = (case map_of fs k of None \<Rightarrow> JUndefined | Some v \<Rightarrow> v)"
| "get_prop _ k = JUndefined"

definition startsWith :: "string \<Rightarrow> string \<Rightarrow> bool" where
  "startsWith s p = (take (length p) s = p)"

section \<open>Data model\<close>

text \<open>
  The types of \<^verbatim>\<open>@budibase/types\<close> and of the \<^verbatim>\<open>ai\<close> package that the step reads or
  builds, with the fields it uses; an optional field is an \<open>option\<close>. Field names are
  the source's, with a prefix where two types share a name (\<^verbatim>\<open>name\<close>, \<^verbatim>\<open>enabledTools\<close>,
  \<^verbatim>\<open>id\<close>, \<^verbatim>\<open>baseUrl\<close>); the \<^verbatim>\<open>output\<close> of the step's outcome is \<open>step_output\<close>.
\<close>

record ToolMetadata =
  tool_name :: string
  tool_details :: jsval

record UIMessage =
  message_id :: string
  message_role :: string
  parts :: "jsval list option"

record UsedTool =
  used_name :: string
  used_count :: nat

record ModelIdentity =
  model_id :: "string option"
  model_name :: "string option"
  model_baseUrl :: "string option"

record AgentDecisionLog =
  log_enabledTools :: "ToolMetadata list option"
  usedTools :: "UsedTool list option"
  model :: "ModelIdentity option"

record AgentStepInputs =
  agentId :: "string option"
  prompt :: "string option"
  useStructuredOutput :: "bool option"
  outputSchema :: "(string \<times> jsval) list option"

record AgentStepOutputs =
  success :: bool
  response :: string
  usage :: "jsval option"
  message :: "UIMessage option"
  step_output :: "jsval option"
  agentTrace :: "AgentDecisionLog option"

record AgentConfig =
  agent_name :: string
  aiconfig :: string
  agent_enabledTools :: "string list option"
  live :: "bool option"
  agent_details :: jsval

record ModelConfig =
  config_modelId :: "string option"
  config_modelName :: "string option"
  config_baseUrl :: "string option"
  config_apiKey :: "string option"

text \<open>
  Two shapes of message part: a text part, and a tool invocation that carries its tool
  name (\<^verbatim>\<open>type: "dynamic-tool"\<close>).
\<close>

definition text_part :: "string \<Rightarrow> jsval" where
  "text_part t = JObj [(''type'', JStr ''text''), (''text'', JStr t)]"

definition tool_part :: "string \<Rightarrow> jsval \<Rightarrow> jsval \<Rightarrow> jsval" where
  "tool_part n inp out =
     JObj [(''type'', JStr ''dynamic-tool''), (''toolName'', JStr n),
           (''input'', inp), (''output'', out)]"

section \<open>The decision log builder\<close>

text \<open>
  \<^verbatim>\<open>part && typeof part === "object" && "type" in part ? part.type : undefined\<close>
\<close>

definition partType :: "jsval \<Rightarrow> jsval" where
  "partType part =
     (if truthy part \<and> typeof_object part \<and> has_prop ''type'' part
      then get_prop part ''type'' else JUndefined)"

text \<open>
  \<^verbatim>\<open>typeof partType === "string" &&
     (partType.startsWith("tool-") || partType === "dynamic-tool")\<close>
\<close>

definition is_tool_part :: "jsval \<Rightarrow> bool" where
  "is_tool_part part =
     (case partType part of
        JStr t \<Rightarrow> startsWith t ''tool-'' \<or> t = ''dynamic-tool''
      | _ \<Rightarrow> False)"

text \<open>
  \<^verbatim>\<open>"toolName" in part && typeof part.toolName === "string" ? part.toolName : undefined\<close>
\<close>

definition toolName :: "jsval \<Rightarrow> string option" where
  "toolName part =
     (if has_prop ''toolName'' part
      then (case get_prop part ''toolName'' of JStr n \<Rightarrow> Some n | _ \<Rightarrow> None)
      else None)"

text \<open>
  \<^verbatim>\<open>toolCallCounts\<close> is a JavaScript \<^verbatim>\<open>Map\<close>, which iterates in insertion order and keeps
  the position of a key that is set again: an association list with \<^const>\<open>AList.update\<close>.
  \<^verbatim>\<open>toolCallCounts.get(toolName) || 0\<close> is the stored count, or 0 for an absent key.
\<close>

definition get_or_zero :: "(string \<times> nat) list \<Rightarrow> string \<Rightarrow> nat" where
  "get_or_zero counts n = (case map_of counts n of None \<Rightarrow> 0 | Some c \<Rightarrow> c)"

text \<open>One iteration of the loop over the parts; \<^verbatim>\<open>continue\<close> leaves the map as it is.\<close>

definition count_part :: "(string \<times> nat) list \<Rightarrow> jsval \<Rightarrow> (string \<times> nat) list" where
  "count_part counts part =
     (if is_tool_part part then
        (let tn = toolName part in
         if \<not> truthy_str tn then counts
         else AList.update (the tn) (get_or_zero counts (the tn) + 1) counts)
      else counts)"

fun count_parts :: "(string \<times> nat) list \<Rightarrow> jsval list \<Rightarrow> (string \<times> nat) list" where
  "count_parts counts [] = counts"
| "count_parts counts (part # rest) = count_parts (count_part counts part) rest"

text \<open>\<^verbatim>\<open>assistantMessage?.parts || []\<close>\<close>

definition message_parts :: "UIMessage option \<Rightarrow> jsval list" where
  "message_parts assistantMessage =
     (case assistantMessage of
        None \<Rightarrow> []
      | Some m \<Rightarrow> (case parts m of None \<Rightarrow> [] | Some ps \<Rightarrow> ps))"

definition toolCallCounts :: "UIMessage option \<Rightarrow> (string \<times> nat) list" where
  "toolCallCounts assistantMessage = count_parts [] (message_parts assistantMessage)"

definition buildAgentDecisionLog ::
  "ToolMetadata list option \<Rightarrow> UIMessage option \<Rightarrow> string option \<Rightarrow> string option \<Rightarrow>
   string option \<Rightarrow> AgentDecisionLog" where
  "buildAgentDecisionLog enabledTools assistantMessage modelId modelName baseUrl =
     (let used = map (\<lambda>(n, c). \<lparr>used_name = n, used_count = c\<rparr>)
                   (toolCallCounts assistantMessage)
      in \<lparr>log_enabledTools = enabledTools,
          usedTools = (if length used > 0 then Some used else None),
          model = (if truthy_str modelId \<or> truthy_str modelName \<or> truthy_str baseUrl
                   then Some \<lparr>model_id = modelId, model_name = modelName,
                               model_baseUrl = baseUrl\<rparr>
                   else None)\<rparr>)"

section \<open>Collaborators and effects\<close>

text \<open>
  The step talks to the agent store and the model-config store (\<^verbatim>\<open>sdk\<close>), the LiteLLM
  client factory (\<^verbatim>\<open>ai\<close> of \<^verbatim>\<open>@budibase/pro\<close>), the schema normaliser, the tool-loop
  agent of the \<^verbatim>\<open>ai\<close> package and the tracer. None of them is part of the step: each is
  a field of the record below, a function from the arguments the step passes to the
  value it returns, or to the value it throws (\<open>Inl\<close>). The calls that only report
  (\<^verbatim>\<open>tracer.llmobs.annotate\<close>, \<^verbatim>\<open>console.error\<close>) and the reads of the environment
  leave an event and do not throw; \<^verbatim>\<open>isProdWorkspaceID\<close> and \<^verbatim>\<open>getError\<close> are functions
  of their argument.
\<close>

datatype stop_condition = stepCountIs nat

record ToolLoopAgentSettings =
  agent_model :: jsval
  instructions :: "string option"
  agent_tools :: "(string \<times> jsval) list"
  stopWhen :: stop_condition
  providerOptions :: jsval
  agent_output :: "jsval option"

text \<open>
  What \<^verbatim>\<open>agent.stream\<close> resolves to: the message snapshots \<^verbatim>\<open>readUIMessageStream\<close>
  yields, the value the iteration throws after them when the stream breaks, and the three
  promises \<^verbatim>\<open>text\<close>, \<^verbatim>\<open>usage\<close> and \<^verbatim>\<open>output\<close>, each of which resolves or rejects.
\<close>

record StreamResult =
  uiMessageStream :: "UIMessage list"
  stream_failure :: "jsval option"
  stream_text :: "jsval + string"
  stream_usage :: "jsval + jsval"
  stream_output :: "jsval + jsval"

record Collaborators =
  v4 :: string
  getOrThrow :: "string \<Rightarrow> jsval + AgentConfig"
  getAvailableToolsMetadata :: "string \<Rightarrow> jsval + ToolMetadata list"
  isProdWorkspaceID :: "string \<Rightarrow> bool"
  buildPromptAndTools :: "AgentConfig \<Rightarrow> jsval + (string \<times> (string \<times> jsval) list)"
  getLiteLLMModelConfigOrThrow :: "string \<Rightarrow> jsval + ModelConfig"
  createLiteLLMFetch :: "string \<Rightarrow> jsval + jsval"
  createLiteLLMOpenAI :: "string option \<Rightarrow> string option \<Rightarrow> jsval \<Rightarrow> jsval + jsval"
  normalizeSchemaForStructuredOutput :: "(string \<times> jsval) list \<Rightarrow> jsval + jsval"
  chat :: "jsval \<Rightarrow> string option \<Rightarrow> jsval + jsval"
  getLiteLLMProviderOptions :: "string option \<Rightarrow> jsval + jsval"
  agent_stream :: "ToolLoopAgentSettings \<Rightarrow> string \<Rightarrow> jsval + StreamResult"
  getError :: "jsval \<Rightarrow> string"

text \<open>
  Every interaction with a collaborator leaves one event, in program order. The event of
  \<^verbatim>\<open>agent.stream\<close> records the settings the agent was constructed with and the prompt.
\<close>

datatype event =
    GenerateSessionId
  | OpenSpan string
  | CloseSpan
  | AgentStoreGetOrThrow string
  | AgentStoreGetAvailableToolsMetadata string
  | AnnotateInput
  | AnnotatePaused
  | AgentStoreBuildPromptAndTools
  | ModelConfigStoreGet string
  | AnnotateModel
  | CreateLiteLLMFetch string
  | CreateLiteLLMOpenAI
  | NormalizeSchema
  | LiteLLMChat
  | GetProviderOptions
  | AgentStream ToolLoopAgentSettings string
  | ReadUIMessageStream
  | AwaitText
  | AwaitUsage
  | AwaitOutput
  | AnnotateOutput
  | AnnotateError
  | ConsoleError

text \<open>
  The four \<^verbatim>\<open>let\<close> variables of \<^verbatim>\<open>run\<close>, which the \<^verbatim>\<open>try\<close> block assigns and the
  \<^verbatim>\<open>catch\<close> block reads, and the events so far.
\<close>

record RunState =
  enabledTools :: "ToolMetadata list option"
  modelId :: "string option"
  modelName :: "string option"
  baseUrl :: "string option"
  trace :: "event list"

text \<open>
  A computation reads and writes the state and either returns a value or throws one.
\<close>

type_synonym 'a action = "RunState \<Rightarrow> (jsval + 'a) \<times> RunState"

definition returns :: "'a \<Rightarrow> 'a action" where
  "returns x = (\<lambda>s. (Inr x, s))"

definition and_then :: "'a action \<Rightarrow> ('a \<Rightarrow> 'b action) \<Rightarrow> 'b action" where
  "and_then m f = (\<lambda>s. case m s of (Inl e, s') \<Rightarrow> (Inl e, s') | (Inr x, s') \<Rightarrow> f x s')"

definition emit :: "event \<Rightarrow> unit action" where
  "emit ev = (\<lambda>s. (Inr (), s\<lparr>trace := trace s @ [ev]\<rparr>))"

text \<open>Calling a collaborator: the event, then its value or its exception.\<close>

definition call :: "event \<Rightarrow> jsval + 'a \<Rightarrow> 'a action" where
  "call ev r = (\<lambda>s. (r, s\<lparr>trace := trace s @ [ev]\<rparr>))"

definition assign :: "(RunState \<Rightarrow> RunState) \<Rightarrow> unit action" where
  "assign f = (\<lambda>s. (Inr (), f s))"

text \<open>\<^verbatim>\<open>try { body } catch (err) { handler }\<close>\<close>

definition try_catch :: "'a action \<Rightarrow> (jsval \<Rightarrow> 'a action) \<Rightarrow> 'a action" where
  "try_catch body handler =
     (\<lambda>s. case body s of (Inl err, s') \<Rightarrow> handler err s' | (Inr x, s') \<Rightarrow> (Inr x, s'))"

text \<open>
  \<^verbatim>\<open>tracer.llmobs.trace(options, fn)\<close> opens the span, runs the callback and closes the
  span; the callback's value, or its exception, is its own.
\<close>

definition llmobs_trace :: "string \<Rightarrow> 'a action \<Rightarrow> 'a action" where
  "llmobs_trace sessionId fn =
     (\<lambda>s. case fn (s\<lparr>trace := trace s @ [OpenSpan sessionId]\<rparr>) of
            (r, s') \<Rightarrow> (r, s'\<lparr>trace := trace s' @ [CloseSpan]\<rparr>))"

section \<open>The agent step\<close>

text \<open>
  \<^verbatim>\<open>const enabledToolNames = new Set(agentConfig.enabledTools || [])\<close>, then
  \<^verbatim>\<open>enabledToolNames.size > 0 ? allTools.filter(tool => enabledToolNames.has(tool.name))
     : allTools\<close>
\<close>

definition filter_enabled_tools :: "ToolMetadata list \<Rightarrow> string list option \<Rightarrow> ToolMetadata list" where
  "filter_enabled_tools allTools enabled =
     (let enabledToolNames = set (case enabled of None \<Rightarrow> [] | Some names \<Rightarrow> names)
      in if card enabledToolNames > 0
         then filter (\<lambda>tool. tool_name tool \<in> enabledToolNames) allTools
         else allTools)"

text \<open>\<^verbatim>\<open>appId && isProdWorkspaceID(appId) && agentConfig.live !== true\<close>\<close>

definition agent_paused :: "Collaborators \<Rightarrow> string option \<Rightarrow> AgentConfig \<Rightarrow> bool" where
  "agent_paused env appId agentConfig =
     (truthy_str appId \<and> isProdWorkspaceID env (the appId) \<and> live agentConfig \<noteq> Some True)"

text \<open>
  \<^verbatim>\<open>useStructuredOutput && outputSchema && Object.keys(outputSchema).length > 0\<close>
\<close>

definition wants_structured_output :: "AgentStepInputs \<Rightarrow> bool" where
  "wants_structured_output inputs =
     (useStructuredOutput inputs = Some True \<and>
      (case outputSchema inputs of
         None \<Rightarrow> False
       | Some schema \<Rightarrow> length (map fst schema) > 0))"

text \<open>\<^verbatim>\<open>Output.object({ schema: jsonSchema(normalizedSchema) })\<close> wraps the schema.\<close>

definition jsonSchema :: "jsval \<Rightarrow> jsval" where
  "jsonSchema normalizedSchema = JObj [(''jsonSchema'', normalizedSchema)]"

definition Output_object :: "jsval \<Rightarrow> jsval" where
  "Output_object schema = JObj [(''schema'', schema)]"

definition build_outputOption :: "Collaborators \<Rightarrow> AgentStepInputs \<Rightarrow> jsval option action" where
  "build_outputOption env inputs =
     (if wants_structured_output inputs then
        and_then (call NormalizeSchema
                   (normalizeSchemaForStructuredOutput env (the (outputSchema inputs))))
          (\<lambda>normalizedSchema. returns (Some (Output_object (jsonSchema normalizedSchema))))
      else returns None)"

text \<open>
  \<^verbatim>\<open>for await (const uiMessage of readUIMessageStream(...)) { assistantMessage = uiMessage }\<close>:
  the last snapshot wins; the iteration throws when the stream breaks.
\<close>

fun last_snapshot :: "UIMessage option \<Rightarrow> UIMessage list \<Rightarrow> UIMessage option" where
  "last_snapshot assistantMessage [] = assistantMessage"
| "last_snapshot assistantMessage (uiMessage # rest) = last_snapshot (Some uiMessage) rest"

definition read_stream :: "StreamResult \<Rightarrow> UIMessage option action" where
  "read_stream streamResult =
     and_then (emit ReadUIMessageStream)
       (\<lambda>_ s. case stream_failure streamResult of
                 Some err \<Rightarrow> (Inl err, s)
               | None \<Rightarrow> (Inr (last_snapshot None (uiMessageStream streamResult)), s))"

text \<open>
  \<^verbatim>\<open>const output = outputOption ? await streamResult.output : undefined\<close>
\<close>

definition await_output :: "jsval option \<Rightarrow> StreamResult \<Rightarrow> jsval option action" where
  "await_output outputOption streamResult =
     (if outputOption \<noteq> None
      then and_then (call AwaitOutput (stream_output streamResult)) (\<lambda>out. returns (Some out))
      else returns None)"

text \<open>The part of the \<^verbatim>\<open>try\<close> block after the paused-agent check.\<close>

definition run_agent ::
  "Collaborators \<Rightarrow> AgentStepInputs \<Rightarrow> string \<Rightarrow> AgentConfig \<Rightarrow> AgentStepOutputs action" where
  "run_agent env inputs sessionId agentConfig =
     and_then (call AgentStoreBuildPromptAndTools (buildPromptAndTools env agentConfig))
       (\<lambda>(systemPrompt, tools).
     and_then (call (ModelConfigStoreGet (aiconfig agentConfig))
                 (getLiteLLMModelConfigOrThrow env (aiconfig agentConfig)))
       (\<lambda>modelConfig.
     and_then (assign (\<lambda>s. s\<lparr>modelId := config_modelId modelConfig,
                              modelName := config_modelName modelConfig,
                              baseUrl := config_baseUrl modelConfig\<rparr>))
       (\<lambda>_.
     and_then (emit AnnotateModel)
       (\<lambda>_.
     and_then (call (CreateLiteLLMFetch sessionId) (createLiteLLMFetch env sessionId))
       (\<lambda>fetch.
     and_then (call CreateLiteLLMOpenAI
                 (createLiteLLMOpenAI env (config_apiKey modelConfig)
                    (config_baseUrl modelConfig) fetch))
       (\<lambda>litellm.
     and_then (build_outputOption env inputs)
       (\<lambda>outputOption.
     and_then (call LiteLLMChat (chat env litellm (config_modelId modelConfig)))
       (\<lambda>languageModel.
     and_then (call GetProviderOptions
                 (getLiteLLMProviderOptions env (config_modelName modelConfig)))
       (\<lambda>litellmOptions.
     (let agent =
            \<lparr>agent_model = languageModel,
             instructions = (if systemPrompt \<noteq> [] then Some systemPrompt else None),
             agent_tools = tools,
             stopWhen = stepCountIs 30,
             providerOptions = JObj [(''litellm'', litellmOptions)],
             agent_output = outputOption\<rparr>
      in
     and_then (call (AgentStream agent (the (prompt inputs)))
                 (agent_stream env agent (the (prompt inputs))))
       (\<lambda>streamResult.
     and_then (read_stream streamResult)
       (\<lambda>assistantMessage.
     and_then (call AwaitText (stream_text streamResult))
       (\<lambda>responseText.
     and_then (call AwaitUsage (stream_usage streamResult))
       (\<lambda>usage.
     and_then (await_output outputOption streamResult)
       (\<lambda>output.
     and_then (emit AnnotateOutput)
       (\<lambda>_ s.
          (Inr \<lparr>success = True,
                response = responseText,
                usage = Some usage,
                message = assistantMessage,
                step_output = output,
                agentTrace = Some (buildAgentDecisionLog (enabledTools s) assistantMessage
                                     (modelId s) (modelName s) (baseUrl s))\<rparr>,
           s)))))))))))))))))"

text \<open>The \<^verbatim>\<open>try\<close> block: agent lookup, tool filter, paused-agent check, then the agent.\<close>

definition try_block ::
  "Collaborators \<Rightarrow> AgentStepInputs \<Rightarrow> string option \<Rightarrow> string \<Rightarrow> AgentStepOutputs action" where
  "try_block env inputs appId sessionId =
     and_then (call (AgentStoreGetOrThrow (the (agentId inputs)))
                 (getOrThrow env (the (agentId inputs))))
       (\<lambda>agentConfig.
     and_then (call (AgentStoreGetAvailableToolsMetadata (aiconfig agentConfig))
                 (getAvailableToolsMetadata env (aiconfig agentConfig)))
       (\<lambda>allTools.
     and_then (assign (\<lambda>s. s\<lparr>enabledTools :=
                   Some (filter_enabled_tools allTools (agent_enabledTools agentConfig))\<rparr>))
       (\<lambda>_.
     and_then (emit AnnotateInput)
       (\<lambda>_.
     if agent_paused env appId agentConfig then
       and_then (emit AnnotatePaused)
         (\<lambda>_. returns
            \<lparr>success = False,
             response = ''Agent is paused. Set it live to use it in published automations.'',
             usage = None, message = None, step_output = None, agentTrace = None\<rparr>)
     else run_agent env inputs sessionId agentConfig))))"

text \<open>The \<^verbatim>\<open>catch\<close> block.\<close>

definition catch_block :: "Collaborators \<Rightarrow> jsval \<Rightarrow> AgentStepOutputs action" where
  "catch_block env err =
     (let errorMessage = getError env err in
      and_then (emit AnnotateError)
        (\<lambda>_.
      and_then (emit ConsoleError)
        (\<lambda>_ s.
           (Inr \<lparr>success = False,
                 response = errorMessage,
                 usage = None, message = None, step_output = None,
                 agentTrace = Some (buildAgentDecisionLog (enabledTools s) None
                                      (modelId s) (modelName s) (baseUrl s))\<rparr>,
            s))))"

text \<open>
  The state in which the span's callback starts: no variable assigned yet, the session id
  generated and the span open.
\<close>

definition start_state :: "string \<Rightarrow> RunState" where
  "start_state sessionId =
     \<lparr>enabledTools = None, modelId = None, modelName = None, baseUrl = None,
      trace = [GenerateSessionId, OpenSpan sessionId]\<rparr>"

text \<open>
  \<^verbatim>\<open>run\<close> resolves to an outcome (\<open>Inr\<close>) or rejects (\<open>Inl\<close>); the second component is
  every event of the invocation.
\<close>

definition run ::
  "Collaborators \<Rightarrow> AgentStepInputs \<Rightarrow> string option \<Rightarrow> (jsval + AgentStepOutputs) \<times> event list" where
  "run env inputs appId =
     (if \<not> truthy_str (agentId inputs) then
        (Inr \<lparr>success = False, response = ''Agent step failed: No agent selected'',
              usage = None, message = None, step_output = None, agentTrace = None\<rparr>, [])
      else if \<not> truthy_str (prompt inputs) then
        (Inr \<lparr>success = False, response = ''Agent step failed: No prompt provided'',
              usage = None, message = None, step_output = None, agentTrace = None\<rparr>, [])
      else
        (let sessionId = v4 env;
             (result, s) =
               llmobs_trace sessionId
                 (try_catch (try_block env inputs appId sessionId) (catch_block env))
                 \<lparr>enabledTools = None, modelId = None, modelName = None, baseUrl = None,
                  trace = [GenerateSessionId]\<rparr>
         in (result, trace s)))"

section \<open>The tool-loop agent runtime\<close>

text \<open>
  Modelled from the spec: \<^verbatim>\<open>ToolLoopAgent\<close> and \<^verbatim>\<open>stepCountIs\<close> come from the \<^verbatim>\<open>ai\<close>
  package, whose source is not part of the step. The specification describes the runtime
  as a loop of model calls and tool calls: after each tool call the model is invoked
  again with the tool's result appended to the context, until the model gives a final
  answer with no pending tool call or the step bound is reached, whichever comes first;
  reaching the bound is not an error, the loop stops and the last produced state is the
  final message. The model backend and the tools are opaque: a reply or a failure for
  every context, a result for every tool input.
\<close>

datatype model_reply = FinalAnswer string | ToolCallRequest string jsval

text \<open>
  Modelled from the spec: the opaque backend. \<open>model_call\<close> is one model invocation on the
  parts produced so far, \<open>tool_call\<close> runs a tool of the registry, \<open>usage_stats\<close> gives the
  usage after a number of round trips and \<open>parse_output\<close> the structured payload of a text
  under an output constraint.
\<close>

record Backend =
  model_call :: "ToolLoopAgentSettings \<Rightarrow> string \<Rightarrow> jsval list \<Rightarrow> jsval + model_reply"
  tool_call :: "(string \<times> jsval) list \<Rightarrow> string \<Rightarrow> jsval \<Rightarrow> jsval"
  usage_stats :: "nat \<Rightarrow> jsval"
  parse_output :: "jsval \<Rightarrow> string \<Rightarrow> jsval + jsval"

text \<open>
  Modelled from the spec: the three final states of the runtime's state machine, \<open>DONE\<close>,
  \<open>ABORTED\<close> (step bound) and \<open>FAILED\<close>, and what the loop leaves behind.
\<close>

datatype loop_end = DONE | ABORTED | FAILED jsval

record LoopResult =
  loop_end :: loop_end
  loop_parts :: "jsval list"
  round_trips :: nat

text \<open>
  Modelled from the spec: the loop, with the number of steps still allowed, the parts
  produced so far and the number of model round trips made so far.
\<close>

fun tool_loop ::
  "Backend \<Rightarrow> ToolLoopAgentSettings \<Rightarrow> string \<Rightarrow> nat \<Rightarrow> jsval list \<Rightarrow> nat \<Rightarrow> LoopResult" where
  "tool_loop backend settings p 0 ps n =
     \<lparr>loop_end = ABORTED, loop_parts = ps, round_trips = n\<rparr>"
| "tool_loop backend settings p (Suc k) ps n =
     (case model_call backend settings p ps of
        Inl err \<Rightarrow> \<lparr>loop_end = FAILED err, loop_parts = ps, round_trips = Suc n\<rparr>
      | Inr (FinalAnswer t) \<Rightarrow>
          \<lparr>loop_end = DONE, loop_parts = ps @ [text_part t], round_trips = Suc n\<rparr>
      | Inr (ToolCallRequest tn inp) \<Rightarrow>
          tool_loop backend settings p k
            (ps @ [tool_part tn inp (tool_call backend (agent_tools settings) tn inp)])
            (Suc n))"

text \<open>
  Modelled from the spec: the maximum step count of the configuration is the number that
  \<^verbatim>\<open>stepCountIs\<close> was given.
\<close>

definition step_bound :: "ToolLoopAgentSettings \<Rightarrow> nat" where
  "step_bound settings = (case stopWhen settings of stepCountIs n \<Rightarrow> n)"

text \<open>
  Modelled from the spec: the loop of one invocation starts with no part, no round trip
  and the whole step bound.
\<close>

definition run_loop :: "Backend \<Rightarrow> ToolLoopAgentSettings \<Rightarrow> string \<Rightarrow> LoopResult" where
  "run_loop backend settings p = tool_loop backend settings p (step_bound settings) [] 0"

text \<open>
  Modelled from the spec: the stream is the append-only sequence of parts, one message
  snapshot for each part produced.
\<close>

definition snapshots :: "jsval list \<Rightarrow> UIMessage list" where
  "snapshots ps =
     map (\<lambda>k. \<lparr>message_id = ''assistant'', message_role = ''assistant'',
                parts = Some (take k ps)\<rparr>)
         [1 ..< Suc (length ps)]"

text \<open>
  Modelled from the spec: the aggregated response text is the text of the text parts.
\<close>

definition part_text :: "jsval \<Rightarrow> string" where
  "part_text part =
     (if get_prop part ''type'' = JStr ''text''
      then (case get_prop part ''text'' of JStr t \<Rightarrow> t | _ \<Rightarrow> [])
      else [])"

text \<open>
  Modelled from the spec: after the stream ends the text, the usage and, only with an
  output constraint, the structured payload are available; asking for the payload
  without a constraint is a contract violation.
\<close>

definition ToolLoopAgent_stream ::
  "Backend \<Rightarrow> ToolLoopAgentSettings \<Rightarrow> string \<Rightarrow> jsval + StreamResult" where
  "ToolLoopAgent_stream backend settings p =
     (let r = run_loop backend settings p;
          t = concat (map part_text (loop_parts r))
      in Inr \<lparr>uiMessageStream = snapshots (loop_parts r),
              stream_failure = (case loop_end r of FAILED err \<Rightarrow> Some err | _ \<Rightarrow> None),
              stream_text = Inr t,
              stream_usage = Inr (usage_stats backend (round_trips r)),
              stream_output =
                (case agent_output settings of
                   None \<Rightarrow> Inl (JStr ''no output constraint'')
                 | Some constraint \<Rightarrow> parse_output backend constraint t)\<rparr>)"

section \<open>The histogram the specification describes\<close>

text \<open>
  The specification's reading of \<^verbatim>\<open>usedTools\<close>, to compare with the loop of
  \<^const>\<open>count_parts\<close>: the names in the order of their first occurrence, each with the
  number of its occurrences.
\<close>

fun first_seen :: "'a list \<Rightarrow> 'a list" where
  "first_seen [] = []"
| "first_seen (x # xs) = x # first_seen (filter (\<lambda>y. y \<noteq> x) xs)"

definition spec_histogram :: "string list \<Rightarrow> UsedTool list" where
  "spec_histogram names =
     map (\<lambda>n. \<lparr>used_name = n, used_count = count_list names n\<rparr>) (first_seen names)"

text \<open>
  The tool names of the parts that identify as a tool invocation and carry a string tool
  name, in message order.
\<close>

definition string_tool_names :: "jsval list \<Rightarrow> string list" where
  "string_tool_names ps =
     map (\<lambda>part. the (toolName part))
       (filter (\<lambda>part. is_tool_part part \<and> toolName part \<noteq> None) ps)"

text \<open>The same, for the parts whose tool name is moreover not the empty string.\<close>

definition counted_tool_names :: "jsval list \<Rightarrow> string list" where
  "counted_tool_names ps =
     map (\<lambda>part. the (toolName part))
       (filter (\<lambda>part. is_tool_part part \<and> truthy_str (toolName part)) ps)"

section \<open>A concrete invocation\<close>

text \<open>
  One agent with three available tools, a model configuration, a backend stream with
  three calls to \<^verbatim>\<open>search\<close> and one to \<^verbatim>\<open>calculator\<close>, and collaborators that answer
  for the agent id \<^verbatim>\<open>agent-1\<close> only. The theorems below are evaluated on it.
\<close>

definition tool_A :: ToolMetadata where
  "tool_A = \<lparr>tool_name = ''A'', tool_details = JNull\<rparr>"

definition tool_B :: ToolMetadata where
  "tool_B = \<lparr>tool_name = ''B'', tool_details = JNull\<rparr>"

definition tool_C :: ToolMetadata where
  "tool_C = \<lparr>tool_name = ''C'', tool_details = JNull\<rparr>"

definition paused_agent :: AgentConfig where
  "paused_agent =
     \<lparr>agent_name = ''helper'', aiconfig = ''config-1'', agent_enabledTools = Some [''A''],
      live = Some False, agent_details = JNull\<rparr>"

definition example_model :: ModelConfig where
  "example_model =
     \<lparr>config_modelId = Some ''m1'', config_modelName = Some ''gpt'',
      config_baseUrl = Some ''http://litellm'', config_apiKey = Some ''key''\<rparr>"

definition example_parts :: "jsval list" where
  "example_parts =
     [tool_part ''search'' JNull JNull,
      JObj [(''type'', JStr ''text''), (''text'', JStr ''thinking'')],
      tool_part ''calculator'' JNull JNull,
      JObj [(''type'', JStr ''tool-lookup'')],
      JNull,
      JStr ''dynamic-tool'',
      tool_part ''search'' JNull JNull,
      JObj [(''type'', JStr ''tool-search''), (''toolName'', JNum 7)],
      tool_part ''search'' JNull JNull]"

definition example_message :: UIMessage where
  "example_message =
     \<lparr>message_id = ''m'', message_role = ''assistant'', parts = Some example_parts\<rparr>"

definition example_stream :: StreamResult where
  "example_stream =
     \<lparr>uiMessageStream = [example_message],
      stream_failure = None,
      stream_text = Inr ''done'',
      stream_usage = Inr (JNum 12),
      stream_output = Inr (JObj [(''answer'', JNum 42)])\<rparr>"

definition example_env :: Collaborators where
  "example_env =
     \<lparr>v4 = ''session-1'',
      getOrThrow = (\<lambda>i. if i = ''agent-1'' then Inr paused_agent else Inl (JStr ''not found'')),
      getAvailableToolsMetadata = (\<lambda>_. Inr [tool_A, tool_B, tool_C]),
      isProdWorkspaceID = (\<lambda>w. w = ''app_prod''),
      buildPromptAndTools = (\<lambda>_. Inr (''be helpful'', [])),
      getLiteLLMModelConfigOrThrow = (\<lambda>_. Inr example_model),
      createLiteLLMFetch = (\<lambda>_. Inr JNull),
      createLiteLLMOpenAI = (\<lambda>_ _ _. Inr JNull),
      normalizeSchemaForStructuredOutput = (\<lambda>schema. Inr (JObj schema)),
      chat = (\<lambda>_ _. Inr JNull),
      getLiteLLMProviderOptions = (\<lambda>_. Inr JNull),
      agent_stream = (\<lambda>_ _. Inr example_stream),
      getError = (\<lambda>err. case err of JStr m \<Rightarrow> (if m = [] then ''Error'' else m) | _ \<Rightarrow> ''Error'')\<rparr>"

definition example_inputs :: AgentStepInputs where
  "example_inputs =
     \<lparr>agentId = Some ''agent-1'', prompt = Some ''hello'',
      useStructuredOutput = Some False, outputSchema = Some [(''answer'', JStr ''number'')]\<rparr>"

text \<open>A backend that asks for the tool \<^verbatim>\<open>search\<close> on every step.\<close>

definition greedy_backend :: Backend where
  "greedy_backend =
     \<lparr>model_call = (\<lambda>_ _ _. Inr (ToolCallRequest ''search'' JNull)),
      tool_call = (\<lambda>_ _ _. JNull),
      usage_stats = (\<lambda>n. JNum (int n)),
      parse_output = (\<lambda>_ _. Inr (JObj []))\<rparr>"

text \<open>The same collaborators, with a tool-metadata lookup that throws.\<close>

definition failing_tools_env :: Collaborators where
  "failing_tools_env =
     example_env\<lparr>getAvailableToolsMetadata := (\<lambda>_. Inl (JStr ''boom''))\<rparr>"

text \<open>The same collaborators, with the stream below that breaks.\<close>

definition broken_stream :: StreamResult where
  "broken_stream =
     \<lparr>uiMessageStream = [example_message],
      stream_failure = Some (JStr ''connection reset''),
      stream_text = Inl (JStr ''no text''),
      stream_usage = Inl (JStr ''no usage''),
      stream_output = Inl (JStr ''no output'')\<rparr>"

definition broken_stream_env :: Collaborators where
  "broken_stream_env = example_env\<lparr>agent_stream := (\<lambda>_ _. Inr broken_stream)\<rparr>"


text \<open>A message whose only part is a tool invocation with the empty string as tool name.\<close>

definition unnamed_tool_message :: UIMessage where
  "unnamed_tool_message =
     \<lparr>message_id = ''m'', message_role = ''assistant'',
      parts = Some [tool_part [] JNull JNull]\<rparr>"

text \<open>
  The settings \<^verbatim>\<open>run\<close> constructs the agent with in this invocation, and the collaborators
  with the runtime of the previous section as agent, on the backend that always asks.
\<close>

definition greedy_agent :: ToolLoopAgentSettings where
  "greedy_agent =
     \<lparr>agent_model = JNull, instructions = Some ''be helpful'', agent_tools = [],
      stopWhen = stepCountIs 30, providerOptions = JObj [(''litellm'', JNull)],
      agent_output = None\<rparr>"


definition greedy_env :: Collaborators where
  "greedy_env = example_env\<lparr>agent_stream := ToolLoopAgent_stream greedy_backend\<rparr>"

section \<open>Named states and outcomes\<close>

text \<open>
  The loop of \<^const>\<open>count_parts\<close> only looks at the names it counts: the same loop over
  the list of those names.
\<close>

fun tally :: "(string \<times> nat) list \<Rightarrow> string list \<Rightarrow> (string \<times> nat) list" where
  "tally counts [] = counts"
| "tally counts (n # ns) = tally (AList.update n (get_or_zero counts n + 1) counts) ns"

text \<open>The state in which the paused-agent check is made.\<close>

definition checked_state :: "AgentStepInputs \<Rightarrow> string \<Rightarrow> AgentConfig \<Rightarrow> ToolMetadata list \<Rightarrow> RunState" where
  "checked_state inputs sessionId agentConfig allTools =
     \<lparr>enabledTools = Some (filter_enabled_tools allTools (agent_enabledTools agentConfig)),
      modelId = None, modelName = None, baseUrl = None,
      trace = [GenerateSessionId, OpenSpan sessionId,
               AgentStoreGetOrThrow (the (agentId inputs)),
               AgentStoreGetAvailableToolsMetadata (aiconfig agentConfig),
               AnnotateInput]\<rparr>"

definition paused_outcome :: AgentStepOutputs where
  "paused_outcome =
            \<lparr>success = False,
             response = ''Agent is paused. Set it live to use it in published automations.'',
             usage = None, message = None, step_output = None, agentTrace = None\<rparr>"

text \<open>
  The invocation reaches the paused-agent check and the check refuses it: the agent and
  its tool metadata were found, and the condition of the check holds.
\<close>

definition refused_paused :: "Collaborators \<Rightarrow> AgentStepInputs \<Rightarrow> string option \<Rightarrow> bool" where
  "refused_paused env inputs appId =
     (case getOrThrow env (the (agentId inputs)) of
        Inl _ \<Rightarrow> False
      | Inr agentConfig \<Rightarrow>
          (case getAvailableToolsMetadata env (aiconfig agentConfig) of
             Inl _ \<Rightarrow> False
           | Inr _ \<Rightarrow> agent_paused env appId agentConfig))"

text \<open>The outcome the \<^verbatim>\<open>catch\<close> block returns for a thrown value, in a given state.\<close>

definition failure_outcome :: "Collaborators \<Rightarrow> jsval \<Rightarrow> RunState \<Rightarrow> AgentStepOutputs" where
  "failure_outcome env err s =
     \<lparr>success = False, response = getError env err,
      usage = None, message = None, step_output = None,
      agentTrace = Some (buildAgentDecisionLog (enabledTools s) None
                           (modelId s) (modelName s) (baseUrl s))\<rparr>"

text \<open>
  Every collaborator that \<^const>\<open>run_agent\<close> calls before \<^verbatim>\<open>agent.stream\<close> returns.
\<close>

definition resolution_succeeds :: "Collaborators \<Rightarrow> AgentStepInputs \<Rightarrow> AgentConfig \<Rightarrow> bool" where
  "resolution_succeeds env inputs agentConfig =
     (case buildPromptAndTools env agentConfig of
        Inl _ \<Rightarrow> False
      | Inr _ \<Rightarrow>
     (case getLiteLLMModelConfigOrThrow env (aiconfig agentConfig) of
        Inl _ \<Rightarrow> False
      | Inr modelConfig \<Rightarrow>
     (case createLiteLLMFetch env (v4 env) of
        Inl _ \<Rightarrow> False
      | Inr fetch \<Rightarrow>
     (case createLiteLLMOpenAI env (config_apiKey modelConfig) (config_baseUrl modelConfig)
             fetch of
        Inl _ \<Rightarrow> False
      | Inr litellm \<Rightarrow>
          (if wants_structured_output inputs
           then \<not> isl (normalizeSchemaForStructuredOutput env (the (outputSchema inputs)))
           else True) \<and>
          \<not> isl (chat env litellm (config_modelId modelConfig)) \<and>
          \<not> isl (getLiteLLMProviderOptions env (config_modelName modelConfig))))))"

section \<open>Executing the step\<close>

lemmas action_defs = returns_def and_then_def emit_def call_def assign_def

lemmas run_agent_defs = run_agent_def read_stream_def await_output_def build_outputOption_def

lemma try_block_no_agent:
  "getOrThrow env (the (agentId inputs)) = Inl err \<Longrightarrow>
   try_block env inputs appId sid (start_state sid) =
     (Inl err, (start_state sid)\<lparr>trace := trace (start_state sid) @ [AgentStoreGetOrThrow (the (agentId inputs))]\<rparr>)"
  by (simp add: try_block_def action_defs)

lemma try_block_no_tools:
  "getOrThrow env (the (agentId inputs)) = Inr cfg \<Longrightarrow>
   getAvailableToolsMetadata env (aiconfig cfg) = Inl err \<Longrightarrow>
   try_block env inputs appId sid (start_state sid) =
     (Inl err, (start_state sid)\<lparr>trace := trace (start_state sid) @
        [AgentStoreGetOrThrow (the (agentId inputs)), AgentStoreGetAvailableToolsMetadata (aiconfig cfg)]\<rparr>)"
  by (simp add: try_block_def action_defs)

lemma try_block_paused:
  "getOrThrow env (the (agentId inputs)) = Inr cfg \<Longrightarrow>
   getAvailableToolsMetadata env (aiconfig cfg) = Inr ts \<Longrightarrow>
   agent_paused env appId cfg \<Longrightarrow>
   try_block env inputs appId sid (start_state sid) =
     (Inr paused_outcome,
      (checked_state inputs sid cfg ts)\<lparr>trace := trace (checked_state inputs sid cfg ts) @ [AnnotatePaused]\<rparr>)"
  by (simp add: try_block_def action_defs start_state_def checked_state_def paused_outcome_def)

lemma try_block_agent:
  "getOrThrow env (the (agentId inputs)) = Inr cfg \<Longrightarrow>
   getAvailableToolsMetadata env (aiconfig cfg) = Inr ts \<Longrightarrow>
   \<not> agent_paused env appId cfg \<Longrightarrow>
   try_block env inputs appId sid (start_state sid) =
     run_agent env inputs sid cfg (checked_state inputs sid cfg ts)"
  by (simp add: try_block_def action_defs start_state_def checked_state_def)

lemma run_valid:
  "truthy_str (agentId inputs) \<Longrightarrow> truthy_str (prompt inputs) \<Longrightarrow>
   run env inputs appId =
     (case try_block env inputs appId (v4 env) (start_state (v4 env)) of
        (Inl err, s') \<Rightarrow>
          (Inr \<lparr>success = False, response = getError env err,
                usage = None, message = None, step_output = None,
                agentTrace = Some (buildAgentDecisionLog (enabledTools s') None
                                     (modelId s') (modelName s') (baseUrl s'))\<rparr>,
           trace s' @ [AnnotateError, ConsoleError, CloseSpan])
      | (Inr out, s') \<Rightarrow> (Inr out, trace s' @ [CloseSpan]))"
  by (simp add: run_def Let_def llmobs_trace_def try_catch_def catch_block_def action_defs
      start_state_def split: prod.splits sum.splits)

lemma run_cases [case_names invalid lookup_failed paused agent_failed succeeded]:
  obtains
    "\<not> truthy_str (agentId inputs) \<or> \<not> truthy_str (prompt inputs)"
  | err s' where
      "truthy_str (agentId inputs)" "truthy_str (prompt inputs)"
      "\<not> refused_paused env inputs appId"
      "run env inputs appId =
         (Inr (failure_outcome env err s'), trace s' @ [AnnotateError, ConsoleError, CloseSpan])"
      "set (trace s') \<subseteq> {GenerateSessionId, OpenSpan (v4 env),
          AgentStoreGetOrThrow (the (agentId inputs))} \<union> range AgentStoreGetAvailableToolsMetadata"
      "\<And>cfg ts. getOrThrow env (the (agentId inputs)) = Inr cfg \<Longrightarrow>
          getAvailableToolsMetadata env (aiconfig cfg) \<noteq> Inr ts"
  | cfg ts where
      "truthy_str (agentId inputs)" "truthy_str (prompt inputs)"
      "getOrThrow env (the (agentId inputs)) = Inr cfg"
      "getAvailableToolsMetadata env (aiconfig cfg) = Inr ts"
      "agent_paused env appId cfg"
      "run env inputs appId =
         (Inr paused_outcome, trace (checked_state inputs (v4 env) cfg ts) @ [AnnotatePaused, CloseSpan])"
  | cfg ts err s' where
      "truthy_str (agentId inputs)" "truthy_str (prompt inputs)"
      "getOrThrow env (the (agentId inputs)) = Inr cfg"
      "getAvailableToolsMetadata env (aiconfig cfg) = Inr ts"
      "\<not> agent_paused env appId cfg"
      "run_agent env inputs (v4 env) cfg (checked_state inputs (v4 env) cfg ts) = (Inl err, s')"
      "run env inputs appId =
         (Inr (failure_outcome env err s'), trace s' @ [AnnotateError, ConsoleError, CloseSpan])"
  | cfg ts out s' where
      "truthy_str (agentId inputs)" "truthy_str (prompt inputs)"
      "getOrThrow env (the (agentId inputs)) = Inr cfg"
      "getAvailableToolsMetadata env (aiconfig cfg) = Inr ts"
      "\<not> agent_paused env appId cfg"
      "run_agent env inputs (v4 env) cfg (checked_state inputs (v4 env) cfg ts) = (Inr out, s')"
      "run env inputs appId = (Inr out, trace s' @ [CloseSpan])"
proof (cases "truthy_str (agentId inputs) \<and> truthy_str (prompt inputs)")
  case False
  then show ?thesis using that(1) by blast
next
  case valid: True
  show ?thesis
  proof (cases "getOrThrow env (the (agentId inputs))")
    case (Inl err)
    let ?s = "(start_state (v4 env))\<lparr>trace := trace (start_state (v4 env)) @
                 [AgentStoreGetOrThrow (the (agentId inputs))]\<rparr>"
    show ?thesis
      using valid Inl try_block_no_agent[OF Inl]
      by (intro that(2)[of err ?s])
         (auto simp: run_valid refused_paused_def failure_outcome_def start_state_def)
  next
    case (Inr cfg)
    show ?thesis
    proof (cases "getAvailableToolsMetadata env (aiconfig cfg)")
      case (Inl err)
      let ?s = "(start_state (v4 env))\<lparr>trace := trace (start_state (v4 env)) @
                   [AgentStoreGetOrThrow (the (agentId inputs)),
                    AgentStoreGetAvailableToolsMetadata (aiconfig cfg)]\<rparr>"
      show ?thesis
        using valid Inr Inl try_block_no_tools[OF Inr Inl]
        by (intro that(2)[of err ?s])
           (auto simp: run_valid refused_paused_def failure_outcome_def start_state_def)
    next
      case tools: (Inr ts)
      show ?thesis
      proof (cases "agent_paused env appId cfg")
        case True
        show ?thesis
          using valid Inr tools True try_block_paused[OF Inr tools True]
          by (intro that(3)[of cfg ts]) (auto simp: run_valid)
      next
        case False
        obtain r s' where rs: "run_agent env inputs (v4 env) cfg (checked_state inputs (v4 env) cfg ts) = (r, s')"
          by (cases "run_agent env inputs (v4 env) cfg (checked_state inputs (v4 env) cfg ts)")
        show ?thesis
        proof (cases r)
          case (Inl err)
          show ?thesis
            using valid Inr tools False rs Inl try_block_agent[OF Inr tools False]
            by (intro that(4)[of cfg ts err s']) (auto simp: run_valid failure_outcome_def)
        next
          case out: (Inr out)
          show ?thesis
            using valid Inr tools False rs out try_block_agent[OF Inr tools False]
            by (intro that(5)[of cfg ts out s']) (auto simp: run_valid)
        qed
      qed
    qed
  qed
qed

lemma run_agent_trace:
  assumes "run_agent env inputs sid cfg s = (r, s')"
  shows "set (trace s) \<subseteq> set (trace s')"
    and "AgentStoreBuildPromptAndTools \<in> set (trace s')"
    and "AnnotatePaused \<in> set (trace s') \<Longrightarrow> AnnotatePaused \<in> set (trace s)"
    and "AnnotateError \<in> set (trace s') \<Longrightarrow> AnnotateError \<in> set (trace s)"
    and "enabledTools s' = enabledTools s"
  using assms unfolding run_agent_defs
  by (auto simp: action_defs Let_def split: sum.splits prod.splits option.splits if_splits)

lemma run_agent_settings:
  assumes "run_agent env inputs sid cfg s = (r, s')"
    and "AgentStream st p \<in> set (trace s')"
  shows "AgentStream st p \<in> set (trace s) \<or>
         (stopWhen st = stepCountIs 30 \<and>
          (agent_output st \<noteq> None \<longleftrightarrow> wants_structured_output inputs))"
  using assms unfolding run_agent_defs
  by (auto simp: action_defs Let_def split: sum.splits prod.splits option.splits if_splits)

lemma run_agent_result:
  assumes "run_agent env inputs sid cfg s = (Inr out, s')"
  shows "success out"
    and "agentTrace out =
           Some (buildAgentDecisionLog (enabledTools s') (message out) (modelId s')
                   (modelName s') (baseUrl s'))"
    and "step_output out \<noteq> None \<longleftrightarrow> wants_structured_output inputs"
    and "\<exists>st. AgentStream st (the (prompt inputs)) \<in> set (trace s')"
  using assms unfolding run_agent_defs
  by (auto simp: action_defs Let_def split: sum.splits prod.splits option.splits if_splits)

section \<open>Input validation\<close>

text \<open>
  C3: when \<^verbatim>\<open>agentId\<close> is missing (or empty) or \<^verbatim>\<open>prompt\<close> is missing or empty, \<^verbatim>\<open>run\<close>
  returns an outcome with \<^verbatim>\<open>success = false\<close> and the invocation has no event at all:
  no session id is generated, no span is opened, and neither the agent store nor the
  backend is called.
\<close>

theorem run_rejects_missing_input:
  assumes "agentId inputs = None \<or> agentId inputs = Some [] \<or>
           prompt inputs = None \<or> prompt inputs = Some []"
  shows "\<exists>out. run env inputs appId = (Inr out, []) \<and> success out = False"
proof -
  from assms have "\<not> truthy_str (agentId inputs) \<or> \<not> truthy_str (prompt inputs)"
    by auto
  then show ?thesis
    by (auto simp: run_def)
qed

theorem run_rejects_missing_input_witness:
  "prompt (example_inputs\<lparr>prompt := Some []\<rparr>) = Some [] \<and>
   run example_env (example_inputs\<lparr>prompt := Some []\<rparr>) (Some ''app_prod'') =
     (Inr \<lparr>success = False, response = ''Agent step failed: No prompt provided'',
           usage = None, message = None, step_output = None, agentTrace = None\<rparr>, [])"
proof -
  have h: "prompt (example_inputs\<lparr>prompt := Some []\<rparr>) = Some []" by simp
  from run_rejects_missing_input[of "example_inputs\<lparr>prompt := Some []\<rparr>" example_env
         "Some ''app_prod''"] h
  obtain out where
    "run example_env (example_inputs\<lparr>prompt := Some []\<rparr>) (Some ''app_prod'') = (Inr out, [])"
    by blast
  then show ?thesis
    by (simp add: run_def example_inputs_def)
qed

section \<open>The enabled tools\<close>

text \<open>
  C5: for every list of available tools and every \<^verbatim>\<open>enabledTools\<close> of the agent
  configuration, an unset or empty \<^verbatim>\<open>enabledTools\<close> resolves to the available tools
  unchanged, and a non-empty one resolves to exactly the available tools whose name is a
  member of it, in their original order.
\<close>

theorem filter_enabled_tools_spec:
  "(enabled = None \<or> enabled = Some [] \<longrightarrow> filter_enabled_tools allTools enabled = allTools) \<and>
   (\<forall>names. enabled = Some names \<and> names \<noteq> [] \<longrightarrow>
      filter_enabled_tools allTools enabled =
        filter (\<lambda>tool. tool_name tool \<in> set names) allTools)"
  by (auto simp: filter_enabled_tools_def Let_def card_gt_0_iff)

theorem filter_enabled_tools_spec_witness:
  "filter_enabled_tools [tool_A, tool_B, tool_C] (Some []) = [tool_A, tool_B, tool_C] \<and>
   filter_enabled_tools [tool_A, tool_B, tool_C] None = [tool_A, tool_B, tool_C] \<and>
   filter_enabled_tools [tool_A, tool_B, tool_C] (Some [''C'', ''A'']) = [tool_A, tool_C]"
  using filter_enabled_tools_spec[of "Some []" "[tool_A, tool_B, tool_C]"]
        filter_enabled_tools_spec[of "None" "[tool_A, tool_B, tool_C]"]
        filter_enabled_tools_spec[of "Some [''C'', ''A'']" "[tool_A, tool_B, tool_C]"]
  by (simp add: tool_A_def tool_B_def tool_C_def)

section \<open>The decision log\<close>

lemma count_parts_tally: "count_parts counts ps = tally counts (counted_tool_names ps)"
  by (induction ps arbitrary: counts) (auto simp: counted_tool_names_def count_part_def Let_def)

lemma set_first_seen: "set (first_seen xs) = set xs"
  by (induction xs rule: first_seen.induct) auto

lemma distinct_first_seen: "distinct (first_seen xs)"
  by (induction xs rule: first_seen.induct) (auto simp: set_first_seen)

text \<open>The keys of the map: the old keys, then the new names in the order they first occur.\<close>

lemma tally_keys:
  "map fst (tally counts ns) =
     map fst counts @ first_seen (filter (\<lambda>n. n \<notin> fst ` set counts) ns)"
proof (induction ns arbitrary: counts)
  case Nil
  show ?case by simp
next
  case (Cons n ns)
  let ?c = "AList.update n (get_or_zero counts n + 1) counts"
  have keys: "fst ` set ?c = insert n (fst ` set counts)"
    by (simp add: dom_update)
  show ?case
  proof (cases "n \<in> fst ` set counts")
    case True
    then have "map fst ?c = map fst counts" by (simp add: update_keys)
    moreover have "insert n (fst ` set counts) = fst ` set counts" using True by auto
    ultimately show ?thesis using Cons[of ?c] True keys by simp
  next
    case False
    then have k: "map fst ?c = map fst counts @ [n]" by (simp add: update_keys)
    have "filter (\<lambda>m. m \<notin> fst ` set ?c) ns =
          filter (\<lambda>y. y \<noteq> n) (filter (\<lambda>m. m \<notin> fst ` set counts) ns)"
      unfolding keys by (auto intro: filter_cong)
    then show ?thesis using Cons[of ?c] False k by simp
  qed
qed

text \<open>The value of a key: what was stored before, plus the occurrences of the name.\<close>

lemma tally_lookup:
  "map_of (tally counts ns) n =
     (if n \<in> fst ` set counts \<union> set ns then Some (get_or_zero counts n + count_list ns n)
      else None)"
proof (induction ns arbitrary: counts)
  case Nil
  show ?case
    by (auto simp: get_or_zero_def map_of_eq_None_iff split: option.splits)
next
  case (Cons m ns)
  show ?case
    by (simp add: Cons dom_update update_conv' get_or_zero_def)
qed

lemma tally_empty:
  "tally [] ns = map (\<lambda>n. (n, count_list ns n)) (first_seen ns)"
proof -
  let ?t = "tally [] ns"
  have keys: "map fst ?t = first_seen ns"
    by (simp add: tally_keys)
  have "?t = map (\<lambda>k. (k, the (map_of ?t k))) (map fst ?t)"
  proof (rule nth_equalityI)
    show "length ?t = length (map (\<lambda>k. (k, the (map_of ?t k))) (map fst ?t))"
      by simp
  next
    fix i assume i: "i < length ?t"
    have d: "distinct (map fst ?t)" by (simp add: keys distinct_first_seen)
    have "?t ! i \<in> set ?t" using i by simp
    then have "map_of ?t (fst (?t ! i)) = Some (snd (?t ! i))"
      using d by (simp add: map_of_eq_Some_iff)
    then show "?t ! i = map (\<lambda>k. (k, the (map_of ?t k))) (map fst ?t) ! i"
      using i by (simp add: prod_eq_iff)
  qed
  also have "\<dots> = map (\<lambda>n. (n, count_list ns n)) (first_seen ns)"
    unfolding keys by (rule map_cong) (auto simp: tally_lookup set_first_seen get_or_zero_def)
  finally show ?thesis .
qed

lemma toolCallCounts_histogram:
  "map (\<lambda>(n, c). \<lparr>used_name = n, used_count = c\<rparr>) (toolCallCounts am) =
   spec_histogram (counted_tool_names (message_parts am))"
  by (simp add: toolCallCounts_def count_parts_tally tally_empty spec_histogram_def)

lemma spec_histogram_Nil: "spec_histogram ns = [] \<longleftrightarrow> ns = []"
  by (cases ns) (simp_all add: spec_histogram_def)

lemma example_counted_names:
  "counted_tool_names (message_parts (Some example_message)) =
     [''search'', ''calculator'', ''search'', ''search'']"
  by (simp add: counted_tool_names_def message_parts_def example_message_def example_parts_def
      tool_part_def is_tool_part_def partType_def toolName_def startsWith_def)

text \<open>
  C6, as amended: for every optional assistant message, with parts of any shape,
  \<^verbatim>\<open>buildAgentDecisionLog\<close> returns a decision log whose \<^verbatim>\<open>usedTools\<close> is the histogram, in
  first-seen order, of the parts that identify as a tool invocation and carry a
  \<^emph>\<open>non-empty\<close> string tool name; every other part is ignored. \<^verbatim>\<open>usedTools\<close> is omitted when
  that histogram is empty, and \<^verbatim>\<open>model\<close> is omitted when none of \<^verbatim>\<open>modelId\<close>,
  \<^verbatim>\<open>modelName\<close>, \<^verbatim>\<open>baseUrl\<close> was resolved.
\<close>

theorem decision_log_histogram:
  "usedTools (buildAgentDecisionLog et am mi mn bu) =
     (if counted_tool_names (message_parts am) = [] then None
      else Some (spec_histogram (counted_tool_names (message_parts am))))
   \<and> model (buildAgentDecisionLog et am mi mn bu) =
     (if truthy_str mi \<or> truthy_str mn \<or> truthy_str bu
      then Some \<lparr>model_id = mi, model_name = mn, model_baseUrl = bu\<rparr> else None)
   \<and> (mi = None \<and> mn = None \<and> bu = None \<longrightarrow>
        model (buildAgentDecisionLog et am mi mn bu) = None)
   \<and> log_enabledTools (buildAgentDecisionLog et am mi mn bu) = et"
  unfolding buildAgentDecisionLog_def Let_def toolCallCounts_histogram
  by (simp add: spec_histogram_Nil)

theorem decision_log_histogram_witness:
  "usedTools (buildAgentDecisionLog None (Some example_message) None None None) =
     Some [\<lparr>used_name = ''search'', used_count = 3\<rparr>,
           \<lparr>used_name = ''calculator'', used_count = 1\<rparr>] \<and>
   model (buildAgentDecisionLog None (Some example_message) None None None) = None"
  using decision_log_histogram[of None "Some example_message" None None None]
  by (simp add: example_counted_names spec_histogram_def)

text \<open>
  The claim as stated counts every part with a string tool name. A tool invocation whose
  tool name is the empty string has one, and \<^verbatim>\<open>if (!toolName) continue\<close> skips it.
\<close>

theorem decision_log_histogram_counterexample:
  "spec_histogram (string_tool_names (message_parts (Some unnamed_tool_message))) =
     [\<lparr>used_name = [], used_count = 1\<rparr>] \<and>
   usedTools (buildAgentDecisionLog None (Some unnamed_tool_message) None None None) = None"
  by (simp add: spec_histogram_def string_tool_names_def message_parts_def
      unnamed_tool_message_def tool_part_def is_tool_part_def partType_def toolName_def
      startsWith_def buildAgentDecisionLog_def toolCallCounts_def count_part_def)

section \<open>The outcome of every invocation\<close>

lemma run_invalid:
  "\<not> truthy_str (agentId inputs) \<or> \<not> truthy_str (prompt inputs) \<Longrightarrow>
   \<exists>out. run env inputs appId = (Inr out, []) \<and> \<not> success out \<and> response out \<noteq> [] \<and>
         agentTrace out = None \<and> step_output out = None"
  by (auto simp: run_def)

lemma refused_paused_iff:
  "getOrThrow env (the (agentId inputs)) = Inr cfg \<Longrightarrow>
   getAvailableToolsMetadata env (aiconfig cfg) = Inr ts \<Longrightarrow>
   refused_paused env inputs appId = agent_paused env appId cfg"
  by (simp add: refused_paused_def)

lemma run_failing_tools:
  "run failing_tools_env example_inputs (Some ''app_prod'') =
     (Inr \<lparr>success = False, response = ''boom'', usage = None, message = None,
           step_output = None,
           agentTrace = Some \<lparr>log_enabledTools = None, usedTools = None, model = None\<rparr>\<rparr>,
      [GenerateSessionId, OpenSpan ''session-1'', AgentStoreGetOrThrow ''agent-1'',
       AgentStoreGetAvailableToolsMetadata ''config-1'', AnnotateError, ConsoleError,
       CloseSpan])"
proof -
  have g: "getOrThrow failing_tools_env (the (agentId example_inputs)) = Inr paused_agent"
    by (simp add: failing_tools_env_def example_env_def example_inputs_def)
  have t: "getAvailableToolsMetadata failing_tools_env (aiconfig paused_agent) = Inl (JStr ''boom'')"
    by (simp add: failing_tools_env_def)
  have v: "truthy_str (agentId example_inputs)" "truthy_str (prompt example_inputs)"
    by (simp_all add: example_inputs_def)
  show ?thesis
    unfolding run_valid[OF v] try_block_no_tools[OF g t]
    by (simp add: start_state_def buildAgentDecisionLog_def toolCallCounts_def
        message_parts_def failing_tools_env_def example_env_def example_inputs_def
        paused_agent_def)
qed

text \<open>
  C1, as amended: \<^verbatim>\<open>run\<close> always returns an outcome, and the outcome carries a decision
  log in \<^verbatim>\<open>agentTrace\<close> exactly when the invocation passed input validation and was not
  refused by the paused-agent check, that is on the success path and on the exception
  path. The two validation failures and the paused refusal return an outcome without
  \<^verbatim>\<open>agentTrace\<close>.
\<close>

theorem agentTrace_absent_iff:
  "\<exists>out. fst (run env inputs appId) = Inr out \<and>
     (agentTrace out = None \<longleftrightarrow>
        \<not> truthy_str (agentId inputs) \<or> \<not> truthy_str (prompt inputs) \<or>
        refused_paused env inputs appId)"
proof (cases rule: run_cases[where inputs=inputs and env=env and appId=appId])
  case invalid
  then show ?thesis using run_invalid[OF invalid, where env=env and appId=appId] by auto
next
  case (lookup_failed err s')
  then show ?thesis by (simp add: failure_outcome_def)
next
  case (paused cfg ts)
  then show ?thesis by (simp add: paused_outcome_def refused_paused_iff)
next
  case (agent_failed cfg ts err s')
  then show ?thesis by (simp add: failure_outcome_def refused_paused_iff)
next
  case (succeeded cfg ts out s')
  then show ?thesis using run_agent_result(2)[OF succeeded(6)]
    by (simp add: refused_paused_iff)
qed

theorem agentTrace_absent_iff_witness:
  "agentTrace (projr (fst (run example_env example_inputs None))) \<noteq> None \<and>
   agentTrace (projr (fst (run failing_tools_env example_inputs (Some ''app_prod'')))) \<noteq> None \<and>
   agentTrace (projr (fst (run example_env example_inputs (Some ''app_prod'')))) = None"
proof -
  have a: "\<not> refused_paused example_env example_inputs None"
    by (simp add: refused_paused_def example_env_def example_inputs_def agent_paused_def)
  have b: "\<not> refused_paused failing_tools_env example_inputs (Some ''app_prod'')"
    by (simp add: refused_paused_def failing_tools_env_def example_env_def example_inputs_def)
  have c: "refused_paused example_env example_inputs (Some ''app_prod'')"
    by (simp add: refused_paused_def example_env_def example_inputs_def agent_paused_def
        paused_agent_def)
  have v: "truthy_str (agentId example_inputs)" "truthy_str (prompt example_inputs)"
    by (simp_all add: example_inputs_def)
  show ?thesis
    using agentTrace_absent_iff[of example_env example_inputs None]
      agentTrace_absent_iff[of failing_tools_env example_inputs "Some ''app_prod''"]
      agentTrace_absent_iff[of example_env example_inputs "Some ''app_prod''"] a b c v
    by auto
qed

text \<open>
  The claim as stated gives every outcome an \<^verbatim>\<open>agentTrace\<close>: the outcome for a missing
  \<^verbatim>\<open>agentId\<close> has none.
\<close>

theorem agentTrace_always_counterexample:
  "fst (run example_env (example_inputs\<lparr>agentId := None\<rparr>) None) =
     Inr \<lparr>success = False, response = ''Agent step failed: No agent selected'',
          usage = None, message = None, step_output = None, agentTrace = None\<rparr>"
  by (simp add: run_def example_inputs_def)

text \<open>
  Whatever the collaborators return or throw, \<^verbatim>\<open>run\<close> resolves to an outcome. The response
  of a failure outcome is one of the three fixed messages, or what \<^verbatim>\<open>getError\<close> returns
  for the value that was thrown.
\<close>

lemma run_resolves:
  "\<exists>out. fst (run env inputs appId) = Inr out \<and>
     (success out \<or>
      response out = ''Agent step failed: No agent selected'' \<or>
      response out = ''Agent step failed: No prompt provided'' \<or>
      response out = ''Agent is paused. Set it live to use it in published automations.'' \<or>
      (\<exists>err. response out = getError env err))"
proof (cases rule: run_cases[where inputs=inputs and env=env and appId=appId])
  case invalid
  then show ?thesis by (auto simp: run_def)
next
  case (lookup_failed err s')
  then show ?thesis by (auto simp: failure_outcome_def)
next
  case (paused cfg ts)
  then show ?thesis by (simp add: paused_outcome_def)
next
  case (agent_failed cfg ts err s')
  then show ?thesis by (auto simp: failure_outcome_def)
next
  case (succeeded cfg ts out s')
  then show ?thesis using run_agent_result(1)[OF succeeded(6)] by simp
qed

section \<open>Evaluating the concrete invocation\<close>

lemmas example_defs = example_env_def example_inputs_def paused_agent_def example_model_def
  example_stream_def tool_A_def tool_B_def tool_C_def

lemmas run_defs = run_def try_block_def run_agent_defs catch_block_def try_catch_def
  llmobs_trace_def action_defs Let_def agent_paused_def wants_structured_output_def
  filter_enabled_tools_def



lemma run_broken_stream:
  "run broken_stream_env example_inputs None =
     (Inr \<lparr>success = False, response = ''connection reset'', usage = None, message = None,
           step_output = None,
           agentTrace = Some \<lparr>log_enabledTools = Some [tool_A], usedTools = None,
                              model = Some \<lparr>model_id = Some ''m1'', model_name = Some ''gpt'',
                                            model_baseUrl = Some ''http://litellm''\<rparr>\<rparr>\<rparr>,
      [GenerateSessionId, OpenSpan ''session-1'', AgentStoreGetOrThrow ''agent-1'',
       AgentStoreGetAvailableToolsMetadata ''config-1'', AnnotateInput,
       AgentStoreBuildPromptAndTools, ModelConfigStoreGet ''config-1'', AnnotateModel,
       CreateLiteLLMFetch ''session-1'', CreateLiteLLMOpenAI, LiteLLMChat, GetProviderOptions,
       AgentStream
         \<lparr>agent_model = JNull, instructions = Some ''be helpful'', agent_tools = [],
          stopWhen = stepCountIs 30, providerOptions = JObj [(''litellm'', JNull)],
          agent_output = None\<rparr> ''hello'',
       ReadUIMessageStream, AnnotateError, ConsoleError, CloseSpan])"
  by (simp add: run_def try_block_def run_agent_defs catch_block_def try_catch_def
      llmobs_trace_def action_defs Let_def broken_stream_env_def example_env_def
      example_inputs_def paused_agent_def example_model_def broken_stream_def
      agent_paused_def wants_structured_output_def filter_enabled_tools_def
      buildAgentDecisionLog_def toolCallCounts_def message_parts_def
      tool_A_def tool_B_def tool_C_def)

section \<open>The paused-agent check\<close>

text \<open>
  C4, as amended: when the inputs are valid, the agent lookup and the lookup of the
  available-tool metadata both succeed, the agent configuration has \<^verbatim>\<open>live\<close> not equal to
  \<^verbatim>\<open>true\<close>, and the workspace id is present and recognised as a production workspace,
  \<^verbatim>\<open>run\<close> returns \<^verbatim>\<open>success = false\<close> with the fixed paused message. The events of the
  invocation are the session id, the span, the two lookups and two annotations: no model
  configuration is read and no model-backend client is constructed or called.
\<close>

theorem paused_agent_refused:
  assumes "agentId inputs = Some aid" "aid \<noteq> []" "truthy_str (prompt inputs)"
    and "getOrThrow env aid = Inr cfg"
    and "getAvailableToolsMetadata env (aiconfig cfg) = Inr ts"
    and "live cfg \<noteq> Some True"
    and "appId = Some w" "w \<noteq> []" "isProdWorkspaceID env w"
  shows "run env inputs appId =
     (Inr \<lparr>success = False,
           response = ''Agent is paused. Set it live to use it in published automations.'',
           usage = None, message = None, step_output = None, agentTrace = None\<rparr>,
      [GenerateSessionId, OpenSpan (v4 env), AgentStoreGetOrThrow aid,
       AgentStoreGetAvailableToolsMetadata (aiconfig cfg), AnnotateInput, AnnotatePaused,
       CloseSpan])"
proof -
  have v: "truthy_str (agentId inputs)" "truthy_str (prompt inputs)"
    using assms by simp_all
  have g: "getOrThrow env (the (agentId inputs)) = Inr cfg"
    using assms by simp
  have p: "agent_paused env appId cfg"
    using assms by (simp add: agent_paused_def)
  show ?thesis
    unfolding run_valid[OF v] try_block_paused[OF g assms(5) p]
    using assms(1) by (simp add: checked_state_def paused_outcome_def)
qed

theorem paused_agent_refused_witness:
  "live paused_agent \<noteq> Some True \<and> isProdWorkspaceID example_env ''app_prod'' \<and>
   run example_env example_inputs (Some ''app_prod'') =
     (Inr \<lparr>success = False,
           response = ''Agent is paused. Set it live to use it in published automations.'',
           usage = None, message = None, step_output = None, agentTrace = None\<rparr>,
      [GenerateSessionId, OpenSpan ''session-1'', AgentStoreGetOrThrow ''agent-1'',
       AgentStoreGetAvailableToolsMetadata ''config-1'', AnnotateInput, AnnotatePaused,
       CloseSpan])"
proof -
  have l: "live paused_agent \<noteq> Some True" by (simp add: paused_agent_def)
  have i: "isProdWorkspaceID example_env ''app_prod''" by (simp add: example_env_def)
  have "run example_env example_inputs (Some ''app_prod'') =
     (Inr \<lparr>success = False,
           response = ''Agent is paused. Set it live to use it in published automations.'',
           usage = None, message = None, step_output = None, agentTrace = None\<rparr>,
      [GenerateSessionId, OpenSpan (v4 example_env), AgentStoreGetOrThrow ''agent-1'',
       AgentStoreGetAvailableToolsMetadata (aiconfig paused_agent), AnnotateInput,
       AnnotatePaused, CloseSpan])"
    by (rule paused_agent_refused[where ts = "[tool_A, tool_B, tool_C]" and w = "''app_prod''"])
       (simp_all add: example_inputs_def example_env_def paused_agent_def)
  then show ?thesis using l i by (simp add: example_env_def paused_agent_def)
qed

text \<open>
  The claim as stated asks only for a non-live agent configuration and a production
  workspace. The tool metadata is looked up between the agent lookup and the check: when
  that lookup throws, the response is the normalised error, not the paused message.
\<close>

theorem paused_agent_refused_counterexample:
  "getOrThrow failing_tools_env ''agent-1'' = Inr paused_agent \<and>
   live paused_agent \<noteq> Some True \<and>
   isProdWorkspaceID failing_tools_env ''app_prod'' \<and>
   response (projr (fst (run failing_tools_env example_inputs (Some ''app_prod'')))) = ''boom''"
  by (simp add: run_failing_tools)
     (simp add: failing_tools_env_def example_env_def paused_agent_def)

lemma run_agent_streams:
  assumes "resolution_succeeds env inputs cfg"
    and "run_agent env inputs (v4 env) cfg s = (r, s')"
  shows "\<exists>st. AgentStream st (the (prompt inputs)) \<in> set (trace s')"
  using assms unfolding run_agent_defs resolution_succeeds_def
  by (auto simp: action_defs Let_def split: sum.splits prod.splits option.splits if_splits)

text \<open>
  C9: when the workspace id is absent (or empty) the paused-agent check never refuses,
  whatever the \<^verbatim>\<open>live\<close> flag of the agent: no invocation is annotated as paused; once the
  agent and its tool metadata are found the step goes on to build the prompt and the
  tools; and when the rest of the configuration resolves, the agent is streamed with the
  prompt.
\<close>

theorem absent_appId_skips_paused_check:
  assumes "appId = None \<or> appId = Some []"
  shows "AnnotatePaused \<notin> set (snd (run env inputs appId)) \<and>
    (\<forall>cfg ts. truthy_str (agentId inputs) \<and> truthy_str (prompt inputs) \<and>
        getOrThrow env (the (agentId inputs)) = Inr cfg \<and>
        getAvailableToolsMetadata env (aiconfig cfg) = Inr ts \<longrightarrow>
        AgentStoreBuildPromptAndTools \<in> set (snd (run env inputs appId)) \<and>
        (resolution_succeeds env inputs cfg \<longrightarrow>
           (\<exists>st. AgentStream st (the (prompt inputs)) \<in> set (snd (run env inputs appId)))))"
proof -
  have np: "\<not> agent_paused env appId cfg" for cfg
    using assms by (auto simp: agent_paused_def)
  show ?thesis
  proof (cases rule: run_cases[where inputs=inputs and env=env and appId=appId])
    case invalid
    then show ?thesis using run_invalid[OF invalid, where env=env and appId=appId] by auto
  next
    case (lookup_failed err s')
    then show ?thesis by auto
  next
    case (paused cfg ts)
    then show ?thesis using np by simp
  next
    case (agent_failed cfg ts err s')
    have "AnnotatePaused \<notin> set (trace s')"
      using run_agent_trace(3)[OF agent_failed(6)] by (auto simp: checked_state_def)
    moreover note run_agent_trace(2)[OF agent_failed(6)]
    moreover have "\<exists>st. AgentStream st (the (prompt inputs)) \<in> set (trace s')"
      if "resolution_succeeds env inputs cfg"
      using run_agent_streams[OF that agent_failed(6)] .
    ultimately show ?thesis using agent_failed by auto
  next
    case (succeeded cfg ts out s')
    have "AnnotatePaused \<notin> set (trace s')"
      using run_agent_trace(3)[OF succeeded(6)] by (auto simp: checked_state_def)
    moreover note run_agent_trace(2)[OF succeeded(6)] run_agent_result(4)[OF succeeded(6)]
    ultimately show ?thesis using succeeded by auto
  qed
qed

theorem absent_appId_skips_paused_check_witness:
  "live paused_agent \<noteq> Some True \<and>
   AnnotatePaused \<notin> set (snd (run example_env example_inputs None)) \<and>
   AgentStoreBuildPromptAndTools \<in> set (snd (run example_env example_inputs None)) \<and>
   (\<exists>st. AgentStream st ''hello'' \<in> set (snd (run example_env example_inputs None)))"
proof -
  have l: "live paused_agent \<noteq> Some True" by (simp add: paused_agent_def)
  have h: "truthy_str (agentId example_inputs) \<and> truthy_str (prompt example_inputs) \<and>
        getOrThrow example_env (the (agentId example_inputs)) = Inr paused_agent \<and>
        getAvailableToolsMetadata example_env (aiconfig paused_agent) =
          Inr [tool_A, tool_B, tool_C]"
    by (simp add: example_env_def example_inputs_def)
  have s: "resolution_succeeds example_env example_inputs paused_agent"
    by (simp add: resolution_succeeds_def example_env_def example_inputs_def
        wants_structured_output_def)
  have p: "the (prompt example_inputs) = ''hello''" by (simp add: example_inputs_def)
  from absent_appId_skips_paused_check[of None example_env example_inputs] h s
  show ?thesis using l unfolding p by blast
qed

section \<open>Structured output\<close>




section \<open>The decision log of a failure\<close>

text \<open>
  C10: on the exception path the outcome is a failure whose \<^verbatim>\<open>agentTrace\<close> is present and
  has no \<^verbatim>\<open>usedTools\<close>, whatever the stream had produced before the error: the \<^verbatim>\<open>catch\<close>
  block builds the decision log without the assistant message. More generally no failure
  outcome has a decision log with \<^verbatim>\<open>usedTools\<close>.
\<close>

theorem failure_trace_has_no_usedTools:
  "\<forall>out. fst (run env inputs appId) = Inr out \<longrightarrow>
     (AnnotateError \<in> set (snd (run env inputs appId)) \<longrightarrow>
        \<not> success out \<and> (\<exists>log. agentTrace out = Some log \<and> usedTools log = None)) \<and>
     (\<not> success out \<longrightarrow> (\<forall>log. agentTrace out = Some log \<longrightarrow> usedTools log = None))"
proof -
  have none: "usedTools (buildAgentDecisionLog et None mi mn bu) = None" for et mi mn bu
    by (simp add: buildAgentDecisionLog_def toolCallCounts_def message_parts_def)
  show ?thesis
  proof (cases rule: run_cases[where inputs=inputs and env=env and appId=appId])
    case invalid
    then show ?thesis using run_invalid[OF invalid, where env=env and appId=appId] by auto
  next
    case (lookup_failed err s')
    then show ?thesis by (simp add: failure_outcome_def none)
  next
    case (paused cfg ts)
    then show ?thesis by (simp add: paused_outcome_def checked_state_def)
  next
    case (agent_failed cfg ts err s')
    then show ?thesis by (simp add: failure_outcome_def none)
  next
    case (succeeded cfg ts out s')
    have "AnnotateError \<notin> set (trace s')"
      using run_agent_trace(4)[OF succeeded(6)] by (auto simp: checked_state_def)
    then show ?thesis using succeeded run_agent_result(1)[OF succeeded(6)] by simp
  qed
qed

theorem failure_trace_has_no_usedTools_witness:
  "AnnotateError \<in> set (snd (run broken_stream_env example_inputs None)) \<and>
   \<not> success (projr (fst (run broken_stream_env example_inputs None))) \<and>
   map_option usedTools (agentTrace (projr (fst (run broken_stream_env example_inputs None)))) =
     Some None \<and>
   counted_tool_names (message_parts (last_snapshot None (uiMessageStream broken_stream))) =
     [''search'', ''calculator'', ''search'', ''search'']"
proof -
  have e: "AnnotateError \<in> set (snd (run broken_stream_env example_inputs None))"
    by (simp add: run_broken_stream)
  have r: "fst (run broken_stream_env example_inputs None) =
           Inr (projr (fst (run broken_stream_env example_inputs None)))"
    by (simp add: run_broken_stream)
  from failure_trace_has_no_usedTools[of broken_stream_env example_inputs None] e r
  have "\<not> success (projr (fst (run broken_stream_env example_inputs None))) \<and>
        (\<exists>log. agentTrace (projr (fst (run broken_stream_env example_inputs None))) = Some log \<and>
               usedTools log = None)"
    by blast
  moreover have "last_snapshot None (uiMessageStream broken_stream) = Some example_message"
    by (simp add: broken_stream_def)
  ultimately show ?thesis using e by (auto simp: example_counted_names)
qed

section \<open>The step bound\<close>

lemma tool_loop_round_trips_le:
  "round_trips (tool_loop backend st p k ps n) \<le> n + k"
proof (induction k arbitrary: ps n)
  case 0
  show ?case by simp
next
  case (Suc k)
  show ?case
  proof (cases "model_call backend st p ps")
    case (Inl err)
    then show ?thesis by simp
  next
    case (Inr reply)
    show ?thesis
    proof (cases reply)
      case (FinalAnswer t)
      with Inr show ?thesis by simp
    next
      case (ToolCallRequest tn inp)
      with Inr Suc.IH[of "ps @ [tool_part tn inp (tool_call backend (agent_tools st) tn inp)]" "Suc n"]
      show ?thesis by simp
    qed
  qed
qed

lemma tool_loop_always_asking:
  assumes "\<forall>ps. \<exists>tn inp. model_call backend st p ps = Inr (ToolCallRequest tn inp)"
  shows "loop_end (tool_loop backend st p k ps n) = ABORTED \<and>
         round_trips (tool_loop backend st p k ps n) = n + k \<and>
         length (loop_parts (tool_loop backend st p k ps n)) = length ps + k"
proof (induction k arbitrary: ps n)
  case 0
  show ?case by simp
next
  case (Suc k)
  from assms obtain tn inp where "model_call backend st p ps = Inr (ToolCallRequest tn inp)"
    by blast
  with Suc.IH[of "ps @ [tool_part tn inp (tool_call backend (agent_tools st) tn inp)]" "Suc n"]
  show ?case by simp
qed

lemma last_snapshot_last:
  "last_snapshot a ms = (if ms = [] then a else Some (last ms))"
  by (induction ms arbitrary: a) auto

lemma last_snapshot_snapshots:
  assumes "ps \<noteq> []"
  shows "last_snapshot None (snapshots ps) =
         Some \<lparr>message_id = ''assistant'', message_role = ''assistant'', parts = Some ps\<rparr>"
proof -
  have le: "Suc 0 \<le> length ps" using assms by (cases ps) simp_all
  then have ne: "[1 ..< Suc (length ps)] \<noteq> []" by simp
  from le have "last [1 ..< Suc (length ps)] = length ps"
    by simp
  then show ?thesis
    using ne by (simp add: last_snapshot_last snapshots_def last_map del: upt_Suc)
qed

lemma run_calls_stream_with_30:
  assumes "AgentStream st p \<in> set (snd (run env inputs appId))"
  shows "stopWhen st = stepCountIs 30"
proof (cases rule: run_cases[where inputs=inputs and env=env and appId=appId])
  case invalid
  then show ?thesis using assms run_invalid[OF invalid, where env=env and appId=appId] by auto
next
  case (lookup_failed err s')
  then show ?thesis using assms by auto
next
  case (paused cfg ts)
  then show ?thesis using assms by (simp add: checked_state_def)
next
  case (agent_failed cfg ts err s')
  then have "AgentStream st p \<in> set (trace s')" using assms by simp
  from run_agent_settings[OF agent_failed(6) this] show ?thesis
    by (simp add: checked_state_def)
next
  case (succeeded cfg ts out s')
  then have "AgentStream st p \<in> set (trace s')" using assms by simp
  from run_agent_settings[OF succeeded(6) this] show ?thesis
    by (simp add: checked_state_def)
qed

lemma greedy_loop:
  "run_loop greedy_backend greedy_agent ''hello'' =
     \<lparr>loop_end = ABORTED, loop_parts = replicate 30 (tool_part ''search'' JNull JNull),
      round_trips = 30\<rparr>"
  by (simp add: run_loop_def step_bound_def greedy_agent_def greedy_backend_def numeral_eq_Suc)

lemma greedy_stream:
  "ToolLoopAgent_stream greedy_backend greedy_agent ''hello'' =
     Inr \<lparr>uiMessageStream = snapshots (replicate 30 (tool_part ''search'' JNull JNull)),
          stream_failure = None, stream_text = Inr [], stream_usage = Inr (JNum 30),
          stream_output = Inl (JStr ''no output constraint'')\<rparr>"
proof -
  have "part_text (tool_part ''search'' JNull JNull) = []"
    by (simp add: part_text_def tool_part_def)
  then have "concat (map part_text (replicate 30 (tool_part ''search'' JNull JNull))) = []"
    by simp
  then show ?thesis
    unfolding ToolLoopAgent_stream_def greedy_loop Let_def
    by (simp add: greedy_backend_def greedy_agent_def)
qed

lemma run_greedy:
  "run greedy_env example_inputs None =
     (Inr \<lparr>success = True, response = [], usage = Some (JNum 30),
           message = Some \<lparr>message_id = ''assistant'', message_role = ''assistant'',
                            parts = Some (replicate 30 (tool_part ''search'' JNull JNull))\<rparr>,
           step_output = None,
           agentTrace = Some (buildAgentDecisionLog (Some [tool_A])
              (Some \<lparr>message_id = ''assistant'', message_role = ''assistant'',
                     parts = Some (replicate 30 (tool_part ''search'' JNull JNull))\<rparr>)
              (Some ''m1'') (Some ''gpt'') (Some ''http://litellm''))\<rparr>,
      [GenerateSessionId, OpenSpan ''session-1'', AgentStoreGetOrThrow ''agent-1'',
       AgentStoreGetAvailableToolsMetadata ''config-1'', AnnotateInput,
       AgentStoreBuildPromptAndTools, ModelConfigStoreGet ''config-1'', AnnotateModel,
       CreateLiteLLMFetch ''session-1'', CreateLiteLLMOpenAI, LiteLLMChat, GetProviderOptions,
       AgentStream greedy_agent ''hello'',
       ReadUIMessageStream, AwaitText, AwaitUsage, AnnotateOutput, CloseSpan])"
proof -
  have ne: "replicate 30 (tool_part ''search'' JNull JNull) \<noteq> []" by simp
  show ?thesis
    by (simp add: run_defs example_defs greedy_env_def greedy_stream[unfolded greedy_agent_def]
        last_snapshot_snapshots[OF ne] greedy_agent_def)
qed

text \<open>
  C8: the tool loop is bounded by the fixed step count 30. \<^verbatim>\<open>run\<close> constructs every agent
  it streams with \<^verbatim>\<open>stopWhen: stepCountIs(30)\<close>. With that bound the runtime makes at most
  30 model round trips against any backend; against a backend that asks for another tool
  call on every step it makes exactly 30 and no 31st, and it ends at the bound without an
  error: the stream does not fail and its last snapshot, the final message, holds the
  parts produced so far.
\<close>

theorem tool_loop_stops_at_30:
  "(\<forall>st p. AgentStream st p \<in> set (snd (run env inputs appId)) \<longrightarrow>
       stopWhen st = stepCountIs 30) \<and>
   (\<forall>backend st p. stopWhen st = stepCountIs 30 \<longrightarrow>
       round_trips (run_loop backend st p) \<le> 30 \<and>
       ((\<forall>ps. \<exists>tn inp. model_call backend st p ps = Inr (ToolCallRequest tn inp)) \<longrightarrow>
          round_trips (run_loop backend st p) = 30 \<and>
          loop_end (run_loop backend st p) = ABORTED \<and>
          (\<exists>sr. ToolLoopAgent_stream backend st p = Inr sr \<and>
                stream_failure sr = None \<and>
                last_snapshot None (uiMessageStream sr) =
                  Some \<lparr>message_id = ''assistant'', message_role = ''assistant'',
                        parts = Some (loop_parts (run_loop backend st p))\<rparr>)))"
proof (intro conjI allI impI)
  fix st p assume "AgentStream st p \<in> set (snd (run env inputs appId))"
  then show "stopWhen st = stepCountIs 30" by (rule run_calls_stream_with_30)
next
  fix backend :: Backend and st :: ToolLoopAgentSettings and p
  assume "stopWhen st = stepCountIs 30"
  then show "round_trips (run_loop backend st p) \<le> 30"
    using tool_loop_round_trips_le[of backend st p 30 "[]" 0]
    by (simp add: run_loop_def step_bound_def)
next
  fix backend :: Backend and st :: ToolLoopAgentSettings and p
  assume b: "stopWhen st = stepCountIs 30"
    and a: "\<forall>ps. \<exists>tn inp. model_call backend st p ps = Inr (ToolCallRequest tn inp)"
  note l = tool_loop_always_asking[OF a, of 30 "[]" 0]
  from b l show "round_trips (run_loop backend st p) = 30"
    by (simp add: run_loop_def step_bound_def)
  from b l show "loop_end (run_loop backend st p) = ABORTED"
    by (simp add: run_loop_def step_bound_def)
  from b l have ne: "loop_parts (run_loop backend st p) \<noteq> []"
    by (auto simp: run_loop_def step_bound_def)
  from b l have e: "loop_end (run_loop backend st p) = ABORTED"
    by (simp add: run_loop_def step_bound_def)
  show "\<exists>sr. ToolLoopAgent_stream backend st p = Inr sr \<and>
                stream_failure sr = None \<and>
                last_snapshot None (uiMessageStream sr) =
                  Some \<lparr>message_id = ''assistant'', message_role = ''assistant'',
                        parts = Some (loop_parts (run_loop backend st p))\<rparr>"
    by (simp add: ToolLoopAgent_stream_def Let_def e last_snapshot_snapshots[OF ne])
qed

theorem tool_loop_stops_at_30_witness:
  "AgentStream greedy_agent ''hello'' \<in> set (snd (run greedy_env example_inputs None)) \<and>
   stopWhen greedy_agent = stepCountIs 30 \<and>
   round_trips (run_loop greedy_backend greedy_agent ''hello'') = 30 \<and>
   loop_end (run_loop greedy_backend greedy_agent ''hello'') = ABORTED \<and>
   length (loop_parts (run_loop greedy_backend greedy_agent ''hello'')) = 30 \<and>
   success (projr (fst (run greedy_env example_inputs None))) \<and>
   map_option parts (message (projr (fst (run greedy_env example_inputs None)))) =
     Some (Some (loop_parts (run_loop greedy_backend greedy_agent ''hello'')))"
proof -
  have e: "AgentStream greedy_agent ''hello'' \<in> set (snd (run greedy_env example_inputs None))"
    by (simp add: run_greedy)
  have a: "\<forall>ps. \<exists>tn inp.
             model_call greedy_backend greedy_agent ''hello'' ps = Inr (ToolCallRequest tn inp)"
    by (simp add: greedy_backend_def)
  note t = tool_loop_stops_at_30[of greedy_env example_inputs None]
  from t e have s: "stopWhen greedy_agent = stepCountIs 30" by blast
  from t s a have "round_trips (run_loop greedy_backend greedy_agent ''hello'') = 30 \<and>
                   loop_end (run_loop greedy_backend greedy_agent ''hello'') = ABORTED"
    by blast
  then show ?thesis using e s by (simp add: run_greedy greedy_loop)
qed

end
